theory Spec2Isabelle
  imports Complex_Main
begin

section \<open>Floating-point values and numpy arrays\<close>

text \<open>
  The engine computes on numpy \<open>float64\<close> arrays.  A float is modelled as an exact real
  number or as the not-a-number value: rounding is idealised away, \<open>NaN\<close> is kept because
  the source produces it (\<open>np.sqrt\<close> of a negative number, \<open>np.mean\<close> of an empty array)
  and every arithmetic operation propagates it.  The guards of the source keep every
  division away from a zero divisor except \<open>0 / 0\<close> in the mean of an empty array, which
  numpy evaluates to \<open>nan\<close>; division by zero is therefore \<open>NaN\<close> here.  Overflow to
  infinity, underflow and the wrap-around of integer-typed arrays are outside this
  arithmetic: where a value computed by the source depends on them, the statement
  carries hypotheses that keep the data in the range where \<open>float64\<close> agrees with it.
\<close>

datatype npfloat = Num real | NaN

instantiation npfloat :: "{zero, plus, minus, times, inverse}"
begin

definition zero_npfloat :: npfloat where
  "zero_npfloat = Num 0"

fun plus_npfloat :: "npfloat \<Rightarrow> npfloat \<Rightarrow> npfloat" where
  "plus_npfloat (Num a) (Num b) = Num (a + b)"
| "plus_npfloat _ _ = NaN"

fun minus_npfloat :: "npfloat \<Rightarrow> npfloat \<Rightarrow> npfloat" where
  "minus_npfloat (Num a) (Num b) = Num (a - b)"
| "minus_npfloat _ _ = NaN"

fun times_npfloat :: "npfloat \<Rightarrow> npfloat \<Rightarrow> npfloat" where
  "times_npfloat (Num a) (Num b) = Num (a * b)"
| "times_npfloat _ _ = NaN"

fun divide_npfloat :: "npfloat \<Rightarrow> npfloat \<Rightarrow> npfloat" where
  "divide_npfloat (Num a) (Num b) = (if b = 0 then NaN else Num (a / b))"
| "divide_npfloat _ _ = NaN"

fun inverse_npfloat :: "npfloat \<Rightarrow> npfloat" where
  "inverse_npfloat (Num a) = (if a = 0 then NaN else Num (1 / a))"
| "inverse_npfloat NaN = NaN"

instance ..

end

text \<open>Addition with \<open>NaN\<close> absorbing is still a commutative monoid, so \<open>sum_list\<close> applies.\<close>

instance npfloat :: comm_monoid_add
proof
  fix x y z :: npfloat
  show "x + y = y + x"
  proof (cases x)
    case (Num r)
    then show ?thesis by (cases y) simp_all
  next
    case NaN
    then show ?thesis by (cases y) simp_all
  qed
  show "0 + x = x"
    unfolding zero_npfloat_def by (cases x) simp_all
  show "(x + y) + z = x + (y + z)"
  proof (cases x)
    case (Num r)
    then show ?thesis by (cases y; cases z) simp_all
  next
    case NaN
    then show ?thesis by simp
  qed
qed

text \<open>\<open>np.sqrt\<close> on a float: \<open>nan\<close> (with a warning, no exception) below zero.\<close>

fun np_sqrt :: "npfloat \<Rightarrow> npfloat" where
  "np_sqrt (Num x) = (if x < 0 then NaN else Num (sqrt x))"
| "np_sqrt NaN = NaN"

text \<open>
  A one-dimensional array is a list, a two-dimensional array (the values of a
  \<open>DataFrame\<close>) the list of its rows; a \<open>DataFrame\<close> is rectangular (\<open>rect\<close>).  Row and
  column labels are positions.
\<close>

type_synonym ndarray1 = "npfloat list"
type_synonym ndarray2 = "npfloat list list"

definition shape0 :: "'a list list \<Rightarrow> nat" where
  "shape0 M = length M"

definition shape1 :: "'a list list \<Rightarrow> nat" where
  "shape1 M = (case M of [] \<Rightarrow> 0 | r # _ \<Rightarrow> length r)"

definition rect :: "'a list list \<Rightarrow> bool" where
  "rect M = list_all (\<lambda>r. length r = shape1 M) M"

text \<open>\<open>np.array\<close> of a \<open>Series\<close> has one dimension, of a \<open>DataFrame\<close> two.\<close>

definition ndim1 :: "'a list \<Rightarrow> nat" where
  "ndim1 v = 1"

definition ndim2 :: "'a list list \<Rightarrow> nat" where
  "ndim2 M = 2"

definition np_zeros :: "nat \<Rightarrow> ndarray1" where
  "np_zeros k = replicate k 0"

definition np_zeros2 :: "nat \<Rightarrow> nat \<Rightarrow> ndarray2" where
  "np_zeros2 r c = replicate r (replicate c 0)"

text \<open>\<open>M.T\<close>\<close>

definition np_T :: "'a list list \<Rightarrow> 'a list list" where
  "np_T M = map (\<lambda>j. map (\<lambda>r. r ! j) M) [0..<shape1 M]"

text \<open>
  Element-wise operations on arrays of equal shape, and an array against a scalar.
  Once \<open>validate_inputs\<close> has passed, the arrays of an instance have matching shapes and
  numpy combines them position by position, as the lists are combined here; on other
  shapes numpy broadcasts or raises, which no method of a constructed instance reaches.
\<close>

definition vec_mul :: "'a::times list \<Rightarrow> 'a list \<Rightarrow> 'a list" where
  "vec_mul u v = map2 (*) u v"

definition vec_div_scalar :: "'a::inverse list \<Rightarrow> 'a \<Rightarrow> 'a list" where
  "vec_div_scalar v s = map (\<lambda>x. x / s) v"

definition mat_add :: "'a::plus list list \<Rightarrow> 'a list list \<Rightarrow> 'a list list" where
  "mat_add A B = map2 (map2 (+)) A B"

definition mat_sub :: "'a::minus list list \<Rightarrow> 'a list list \<Rightarrow> 'a list list" where
  "mat_sub A B = map2 (map2 (-)) A B"

definition mat_div_scalar :: "'a::inverse list list \<Rightarrow> 'a \<Rightarrow> 'a list list" where
  "mat_div_scalar A s = map (\<lambda>r. map (\<lambda>x. x / s) r) A"

text \<open>The products behind \<open>@\<close>: vector with vector, matrix with vector, matrix with matrix.\<close>

definition dot :: "'a::{comm_monoid_add,times} list \<Rightarrow> 'a list \<Rightarrow> 'a" where
  "dot u v = sum_list (map2 (*) u v)"

definition matvec :: "'a::{comm_monoid_add,times} list list \<Rightarrow> 'a list \<Rightarrow> 'a list" where
  "matvec M v = map (\<lambda>r. dot r v) M"

definition matmul :: "'a::{comm_monoid_add,times} list list \<Rightarrow> 'a list list \<Rightarrow> 'a list list" where
  "matmul A B = map (\<lambda>r. map (\<lambda>c. dot r c) (np_T B)) A"

definition np_outer :: "'a::times list \<Rightarrow> 'a list \<Rightarrow> 'a list list" where
  "np_outer u v = map (\<lambda>x. map (\<lambda>y. x * y) v) u"

definition np_diag :: "'a::zero list \<Rightarrow> 'a list list" where
  "np_diag v = map (\<lambda>i. map (\<lambda>j. if i = j then v ! i else 0) [0..<length v]) [0..<length v]"

text \<open>\<open>np.sum(M, axis=1)\<close>, \<open>np.mean\<close>, \<open>np.linalg.norm\<close>\<close>

definition np_sum_axis1 :: "ndarray2 \<Rightarrow> ndarray1" where
  "np_sum_axis1 M = map sum_list M"

definition np_mean :: "ndarray1 \<Rightarrow> npfloat" where
  "np_mean v = sum_list v / Num (real (length v))"

definition np_linalg_norm :: "ndarray1 \<Rightarrow> npfloat" where
  "np_linalg_norm v = np_sqrt (sum_list (map (\<lambda>x. x * x) v))"

section \<open>The calculator\<close>

datatype error = ValueError string | RuntimeError string

text \<open>
  The instance: the two inputs, \<open>n\<close>, and the three cache attributes that \<open>__init__\<close>
  sets to \<open>None\<close> (\<open>_s_score\<close>, \<open>_centrality\<close>, \<open>_gradient_s\<close>).
\<close>

record calculator =
  self_C :: ndarray1
  self_E :: ndarray2
  self_E_df :: ndarray2
  self_n :: nat
  self_s_score :: "npfloat option"
  self_centrality :: "ndarray1 option"
  self_gradient_s :: "ndarray1 option"

definition validate_inputs :: "calculator \<Rightarrow> error + unit" where
  "validate_inputs self =
    (if ndim1 (self_C self) \<noteq> 1 then
       Inl (ValueError ''Compromise vector must be a 1D array.'')
     else if ndim2 (self_E self) \<noteq> 2 \<or> shape0 (self_E self) \<noteq> shape1 (self_E self) then
       Inl (ValueError ''Adjacency matrix must be a 2D square matrix.'')
     else if self_n self \<noteq> shape0 (self_E self) then
       Inl (ValueError ''Dimensions of compromise vector and adjacency matrix do not match.'')
     else Inr ())"

definition init :: "ndarray1 \<Rightarrow> ndarray2 \<Rightarrow> error + calculator" where
  "init compromise_vector adjacency_matrix =
    (let self = \<lparr> self_C = compromise_vector, self_E = adjacency_matrix,
                  self_E_df = adjacency_matrix, self_n = length compromise_vector,
                  self_s_score = None, self_centrality = None, self_gradient_s = None \<rparr>
     in case validate_inputs self of Inl e \<Rightarrow> Inl e | Inr _ \<Rightarrow> Inr self)"

text \<open>
  The body of the \<open>try\<close> in \<open>calculate_S\<close>: \<open>c_col.T @ E @ c_col\<close> multiplies shapes
  \<open>(1,n)\<close>, \<open>(r,k)\<close> and \<open>(n,1)\<close>, and \<open>@\<close> raises numpy's \<open>ValueError\<close> when the inner
  dimensions differ; \<open>.item()\<close> reads the single entry of the 1-by-1 result.  Nothing in
  the body raises \<open>LinAlgError\<close>; the handler for it is kept as the source has it.  The
  messages of the two handlers end with the text of the caught exception, left out here.
\<close>

datatype np_exception = LinAlgError | OtherException

definition vecmat :: "'a::{comm_monoid_add,times} list \<Rightarrow> 'a list list \<Rightarrow> 'a list" where
  "vecmat v M = map (\<lambda>c. dot v c) (np_T M)"

definition quadratic_form :: "ndarray1 \<Rightarrow> ndarray2 \<Rightarrow> np_exception + npfloat" where
  "quadratic_form c e =
    (if length c \<noteq> shape0 e then Inl OtherException
     else if shape1 e \<noteq> length c then Inl OtherException
     else Inr (dot (vecmat c e) c))"

definition calculate_S :: "calculator \<Rightarrow> error + npfloat" where
  "calculate_S self =
    (case quadratic_form (self_C self) (self_E self) of
       Inl LinAlgError \<Rightarrow> Inl (ValueError ''Linear algebra error during S calculation'')
     | Inl OtherException \<Rightarrow> Inl (RuntimeError ''An unexpected error occurred during S calculation'')
     | Inr s_squared \<Rightarrow> Inr (np_sqrt s_squared))"

text \<open>
  A method that reads or fills a cache returns its result together with the instance
  as the call leaves it.  The property \<open>S\<close>:
\<close>

definition S :: "calculator \<Rightarrow> (error + npfloat) \<times> calculator" where
  "S self =
    (case self_s_score self of
       None \<Rightarrow> (case calculate_S self of
                  Inl e \<Rightarrow> (Inl e, self)
                | Inr v \<Rightarrow> (Inr v, self\<lparr>self_s_score := Some v\<rparr>))
     | Some v \<Rightarrow> (Inr v, self))"

text \<open>\<open>_get_gradient\<close>; \<open>self.S\<close> is read for the test and again, then cached, for the quotient.\<close>

definition get_gradient :: "calculator \<Rightarrow> (error + ndarray1) \<times> calculator" where
  "get_gradient self =
    (case self_gradient_s self of
       Some g \<Rightarrow> (Inr g, self)
     | None \<Rightarrow>
        (case S self of
           (Inl e, self') \<Rightarrow> (Inl e, self')
         | (Inr s, self') \<Rightarrow>
            (let g = (if s = 0 then np_zeros (self_n self')
                      else vec_div_scalar
                             (matvec (mat_add (self_E self') (np_T (self_E self'))) (self_C self'))
                             (Num 2 * s))
             in (Inr g, self'\<lparr>self_gradient_s := Some g\<rparr>))))"

definition calculate_risk_decomposition :: "calculator \<Rightarrow> (error + ndarray1) \<times> calculator" where
  "calculate_risk_decomposition self =
    (case get_gradient self of
       (Inl e, self') \<Rightarrow> (Inl e, self')
     | (Inr gradient, self') \<Rightarrow> (Inr (vec_mul (self_C self') gradient), self'))"

definition calculate_risk_increment :: "calculator \<Rightarrow> (error + ndarray1) \<times> calculator" where
  "calculate_risk_increment self = get_gradient self"

definition calculate_fragility :: "calculator \<Rightarrow> npfloat" where
  "calculate_fragility self =
    (let degrees = np_sum_axis1 (self_E self);
         mean_degree = np_mean degrees
     in if mean_degree = 0 then 0
        else (let mean_squared_degree = np_mean (map (\<lambda>d. d * d) degrees)
              in mean_squared_degree / mean_degree))"

definition calculate_node_degrees :: "calculator \<Rightarrow> ndarray1" where
  "calculate_node_degrees self = np_sum_axis1 (self_E self)"

definition calculate_normalized_score :: "calculator \<Rightarrow> (error + npfloat) \<times> calculator" where
  "calculate_normalized_score self =
    (let s_baseline = np_linalg_norm (self_C self)
     in if s_baseline = 0 then (Inr 0, self)
        else (case S self of
                (Inl e, self') \<Rightarrow> (Inl e, self')
              | (Inr s, self') \<Rightarrow> (Inr (s / s_baseline), self')))"

text \<open>\<open>calculate_cross_risk\<close>; the result is the matrix of values of the returned frame.\<close>

definition calculate_cross_risk :: "calculator \<Rightarrow> (error + ndarray2) \<times> calculator" where
  "calculate_cross_risk self =
    (case S self of
       (Inl e, self') \<Rightarrow> (Inl e, self')
     | (Inr s, self') \<Rightarrow>
        if s = 0 then (Inr (np_zeros2 (self_n self') (self_n self')), self')
        else (case get_gradient self' of
                (Inl e, self'') \<Rightarrow> (Inl e, self'')
              | (Inr g, self'') \<Rightarrow>
                 (let A = mat_div_scalar (mat_add (self_E self'') (np_T (self_E self''))) (Num 2);
                      g_outer = np_outer g g;
                      H = mat_div_scalar (mat_sub A g_outer) s;
                      delta_matrix = mat_add (np_diag g) (matmul H (np_diag (self_C self'')))
                  in (Inr delta_matrix, self''))))"

subsection \<open>Centrality\<close>

text \<open>
  \<open>networkx\<close> is a library outside the repository: its two functions are parameters.
  \<open>eigenvector_centrality G max_iter tol\<close> returns the dictionary from node to score or
  raises; \<open>PowerIterationFailedConvergence\<close> is what it raises when \<open>max_iter\<close> iterations
  did not reach \<open>tol\<close>.  The source always passes \<open>weight='weight'\<close>, which is not an
  argument here.  Nodes are the positions of the index.
\<close>

datatype nx_exception = PowerIterationFailedConvergence nat | NetworkXException

record 'g networkx =
  from_pandas_adjacency :: "ndarray2 \<Rightarrow> nx_exception + 'g"
  eigenvector_centrality :: "'g \<Rightarrow> nat \<Rightarrow> real \<Rightarrow> nx_exception + (nat \<rightharpoonup> npfloat)"

definition ConvergenceFailure :: error where
  "ConvergenceFailure = RuntimeError
     (''Power iteration failed to converge when calculating eigenvector centrality. '' @
      ''Try increasing max_iter or changing the tolerance.'')"

fun centrality_except :: "nx_exception \<Rightarrow> error" where
  "centrality_except (PowerIterationFailedConvergence k) = ConvergenceFailure"
| "centrality_except NetworkXException =
     RuntimeError ''An unexpected error occurred during centrality calculation''"

text \<open>The list comprehension over the index; a node missing from the dictionary is a \<open>KeyError\<close>.\<close>

definition calculate_eigenvector_centrality :: "'g networkx \<Rightarrow> ndarray2 \<Rightarrow> error + ndarray1" where
  "calculate_eigenvector_centrality nx adjacency_matrix =
    (case from_pandas_adjacency nx adjacency_matrix of
       Inl x \<Rightarrow> Inl (centrality_except x)
     | Inr G \<Rightarrow>
        (case eigenvector_centrality nx G 1000 (1 / 10 ^ 6) of
           Inl x \<Rightarrow> Inl (centrality_except x)
         | Inr centrality_dict \<Rightarrow>
            (case those (map centrality_dict [0..<shape0 adjacency_matrix]) of
               None \<Rightarrow> Inl (RuntimeError ''An unexpected error occurred during centrality calculation'')
             | Some centrality \<Rightarrow> Inr centrality)))"

definition calculate_centrality :: "'g networkx \<Rightarrow> calculator \<Rightarrow> (error + ndarray1) \<times> calculator" where
  "calculate_centrality nx self =
    (case self_centrality self of
       None \<Rightarrow> (case calculate_eigenvector_centrality nx (self_E_df self) of
                  Inl e \<Rightarrow> (Inl e, self)
                | Inr c \<Rightarrow> (Inr c, self\<lparr>self_centrality := Some c\<rparr>))
     | Some c \<Rightarrow> (Inr c, self))"

definition calculate_criticality :: "'g networkx \<Rightarrow> calculator \<Rightarrow> (error + ndarray1) \<times> calculator" where
  "calculate_criticality nx self =
    (case calculate_centrality nx self of
       (Inl e, self') \<Rightarrow> (Inl e, self')
     | (Inr c, self') \<Rightarrow> (Inr (vec_mul (self_C self') c), self'))"

text \<open>The two construction errors of the specification, as the source raises them.\<close>

definition NotSquare :: error where
  "NotSquare = ValueError ''Adjacency matrix must be a 2D square matrix.''"

definition ShapeMismatch :: error where
  "ShapeMismatch = ValueError ''Dimensions of compromise vector and adjacency matrix do not match.''"

subsection \<open>Valid inputs\<close>

text \<open>
  An \<open>n\<close>-by-\<open>n\<close> array, and the instance as \<open>__init__\<close> leaves it: the inputs stored,
  the caches empty.
\<close>

definition square :: "nat \<Rightarrow> 'a list list \<Rightarrow> bool" where
  "square n e = (length e = n \<and> (\<forall>i<n. length (e ! i) = n))"

definition fresh :: "ndarray1 \<Rightarrow> ndarray2 \<Rightarrow> calculator" where
  "fresh c e = \<lparr> self_C = c, self_E = e, self_E_df = e, self_n = length c,
                 self_s_score = None, self_centrality = None, self_gradient_s = None \<rparr>"

subsection \<open>The cross-risk matrix in the words of the specification\<close>





subsection \<open>The identity matrix\<close>

definition np_eye :: "nat \<Rightarrow> real list list" where
  "np_eye k = np_diag (replicate k 1)"

subsection \<open>Ranges of \<open>float64\<close>\<close>

text \<open>
  The squares of the entries of a vector stay in the normal range of \<open>float64\<close> (every
  non-zero entry has magnitude at least \<open>2\<^sup>-\<^sup>5\<^sup>1\<^sup>1\<close>, so its square is at least \<open>2\<^sup>-\<^sup>1\<^sup>0\<^sup>2\<^sup>2\<close>) and
  their sum stays below the largest \<open>float64\<close>: neither overflow nor underflow occurs in
  a sum of squares.  A vector of integers may reach the source as an \<open>int64\<close> array,
  whose arithmetic wraps around: its sum of squares is then at most \<open>2\<^sup>5\<^sup>3\<close>, where integer
  and floating-point arithmetic are both exact.
\<close>

definition float64_squares_in_range :: "real list \<Rightarrow> bool" where
  "float64_squares_in_range c \<longleftrightarrow>
     list_all (\<lambda>x. x = 0 \<or> 1 / 2 ^ 511 \<le> \<bar>x\<bar>) c \<and> (\<Sum>x\<leftarrow>c. x * x) \<le> 2 ^ 1023
     \<and> (list_all (\<lambda>x. x \<in> \<int>) c \<longrightarrow> (\<Sum>x\<leftarrow>c. x * x) \<le> 2 ^ 53)"

text \<open>
  A matrix of integers on which the computation of the fragility of a matrix with
  common row sum \<open>d\<close> is exact in \<open>float64\<close> (and in \<open>int64\<close>): every sum of entries of a
  row, every sum of degrees and every sum of squared degrees is an integer of magnitude
  at most \<open>2\<^sup>5\<^sup>3\<close>, and the quotients are integers too.
\<close>

definition float64_exact_integers :: "real list list \<Rightarrow> real \<Rightarrow> bool" where
  "float64_exact_integers e d \<longleftrightarrow>
     list_all (\<lambda>r. list_all (\<lambda>x. x \<in> \<int>) r \<and> (\<Sum>x\<leftarrow>r. \<bar>x\<bar>) \<le> 2 ^ 53) e
     \<and> real (length e) * (d * d) \<le> 2 ^ 53"

subsection \<open>Sequences of calls\<close>







section \<open>Construction\<close>

lemma init_Inr_iff:
  "init c e = Inr self \<longleftrightarrow>
     length c = shape0 e \<and> shape0 e = shape1 e \<and>
     self = \<lparr> self_C = c, self_E = e, self_E_df = e, self_n = length c,
              self_s_score = None, self_centrality = None, self_gradient_s = None \<rparr>"
  by (auto simp: init_def validate_inputs_def ndim1_def ndim2_def Let_def)

text \<open>
  C4, as stated, fails twice.  A vector of length 1 against a 2-by-3 matrix differs in
  length from the number of rows, and construction fails with NotSquare, not with
  ShapeMismatch: the square test comes first.  The empty vector against the 0-by-0
  matrix is accepted although \<open>n = 0\<close>.
\<close>

theorem init_counterexample:
  "init [Num 1] [[Num 1, Num 2, Num 3], [Num 4, Num 5, Num 6]] = Inl NotSquare
   \<and> init [Num 1] [[Num 1, Num 2, Num 3], [Num 4, Num 5, Num 6]] \<noteq> Inl ShapeMismatch
   \<and> init [] [] = Inr \<lparr> self_C = [], self_E = [], self_E_df = [], self_n = 0,
                        self_s_score = None, self_centrality = None, self_gradient_s = None \<rparr>"
  by (simp add: init_def validate_inputs_def ndim1_def ndim2_def shape0_def shape1_def
      NotSquare_def ShapeMismatch_def)

text \<open>
  C4, amended: construction fails with NotSquare whenever the matrix has unequal row and
  column counts (whatever the length of the vector), fails with ShapeMismatch when the
  matrix is square and the length of the vector differs from its number of rows, and
  succeeds exactly when \<open>len(C) = E.rows = E.cols\<close>, the empty case \<open>n = 0\<close> included.
\<close>

theorem init_cases:
  "(shape0 e \<noteq> shape1 e \<longrightarrow> init c e = Inl NotSquare)
   \<and> (shape0 e = shape1 e \<and> length c \<noteq> shape0 e \<longrightarrow> init c e = Inl ShapeMismatch)
   \<and> ((\<exists>self. init c e = Inr self) \<longleftrightarrow> length c = shape0 e \<and> shape0 e = shape1 e)"
  by (auto simp: init_def validate_inputs_def ndim1_def ndim2_def Let_def
      NotSquare_def ShapeMismatch_def)

theorem init_cases_witness:
  "shape0 [[Num 1, Num 2]] \<noteq> shape1 [[Num 1, Num 2]]
   \<and> init [Num 1] [[Num 1, Num 2]] = Inl NotSquare
   \<and> shape0 [[Num 1]] = shape1 [[Num 1]] \<and> length [Num 1, Num 2] \<noteq> shape0 [[Num 1]]
   \<and> init [Num 1, Num 2] [[Num 1]] = Inl ShapeMismatch
   \<and> length [Num 3] = shape0 [[Num 1]]
   \<and> (\<exists>self. init [Num 3] [[Num 1]] = Inr self)"
  using init_cases [of "[[Num 1, Num 2]]" "[Num 1]"]
        init_cases [of "[[Num 1]]" "[Num 1, Num 2]"]
        init_cases [of "[[Num 1]]" "[Num 3]"]
  by (simp add: shape0_def shape1_def)

section \<open>Shapes and index sums\<close>

lemma square_shape1: "square n e \<Longrightarrow> shape1 e = n"
  by (cases e) (auto simp: square_def shape1_def)

lemma square_rect: "square n e \<Longrightarrow> rect e"
  by (auto simp: rect_def list_all_length square_shape1) (simp add: square_def)

lemma rect_square: "rect e \<Longrightarrow> shape0 e = shape1 e \<Longrightarrow> square (length e) e"
  by (auto simp: rect_def list_all_length square_def shape0_def)

lemma init_fresh:
  assumes "init c e = Inr self" "rect e"
  shows "self = fresh c e" "square (length c) e"
  using assms rect_square [of e]
  by (auto simp: init_Inr_iff fresh_def shape0_def)

lemma dot_sum:
  fixes u v :: "'a::{comm_monoid_add,times} list"
  shows "length u = length v \<Longrightarrow> dot u v = (\<Sum>i<length u. u ! i * v ! i)"
  by (simp add: dot_def sum_list_sum_nth atLeast0LessThan)

lemma np_T_nth:
  "square n e \<Longrightarrow> i < n \<Longrightarrow> j < n \<Longrightarrow> np_T e ! j ! i = e ! i ! j"
  by (simp add: np_T_def square_shape1) (simp add: square_def)

lemma square_np_T: "square n e \<Longrightarrow> square n (np_T e)"
  using square_shape1 [of n e] by (simp add: square_def np_T_def)

lemma mat_add_nth:
  "square n a \<Longrightarrow> square n b \<Longrightarrow> i < n \<Longrightarrow> j < n \<Longrightarrow> mat_add a b ! i ! j = a ! i ! j + b ! i ! j"
  by (simp add: mat_add_def square_def)

lemma square_mat_add: "square n a \<Longrightarrow> square n b \<Longrightarrow> square n (mat_add a b)"
  by (simp add: square_def mat_add_def)

lemma matvec_nth_sum:
  fixes m :: "'a::{comm_monoid_add,times} list list"
  shows "square n m \<Longrightarrow> length v = n \<Longrightarrow> i < n \<Longrightarrow> matvec m v ! i = (\<Sum>j<n. m ! i ! j * v ! j)"
  by (simp add: matvec_def square_def dot_sum)

lemma vecmat_nth_sum:
  fixes m :: "'a::{comm_monoid_add,times} list list"
  assumes "square n m" "length v = n" "j < n"
  shows "vecmat v m ! j = (\<Sum>i<n. v ! i * m ! i ! j)"
proof -
  have "length (np_T m) = n" "length (np_T m ! j) = n"
    using square_np_T [OF assms(1)] assms(3) by (simp_all add: square_def)
  then have "vecmat v m ! j = (\<Sum>i<n. v ! i * np_T m ! j ! i)"
    using assms by (simp add: vecmat_def dot_sum)
  also have "\<dots> = (\<Sum>i<n. v ! i * m ! i ! j)"
    using assms by (intro sum.cong refl) (simp add: np_T_nth)
  finally show ?thesis .
qed

lemma length_vecmat: "square n m \<Longrightarrow> length (vecmat v m) = n"
  by (simp add: vecmat_def np_T_def square_shape1)

lemma gradient_numerator_nth:
  fixes e :: "'a::{comm_monoid_add,times} list list"
  assumes "square n e" "length c = n" "i < n"
  shows "matvec (mat_add e (np_T e)) c ! i = (\<Sum>j<n. (e ! i ! j + e ! j ! i) * c ! j)"
proof -
  have "matvec (mat_add e (np_T e)) c ! i = (\<Sum>j<n. mat_add e (np_T e) ! i ! j * c ! j)"
    using assms by (simp add: matvec_nth_sum square_mat_add square_np_T)
  also have "\<dots> = (\<Sum>j<n. (e ! i ! j + e ! j ! i) * c ! j)"
    using assms by (intro sum.cong refl) (simp add: mat_add_nth square_np_T np_T_nth)
  finally show ?thesis .
qed

lemma length_gradient_numerator:
  "square n e \<Longrightarrow> length (matvec (mat_add e (np_T e)) c) = n"
  using square_np_T [of n e] by (simp add: matvec_def mat_add_def square_def)

section \<open>The score and the gradient on a new instance\<close>

lemma fresh_sel [simp]:
  "self_C (fresh c e) = c" "self_E (fresh c e) = e" "self_E_df (fresh c e) = e"
  "self_n (fresh c e) = length c" "self_s_score (fresh c e) = None"
  "self_centrality (fresh c e) = None" "self_gradient_s (fresh c e) = None"
  by (simp_all add: fresh_def)

lemma quadratic_form_square:
  "square (length c) e \<Longrightarrow> quadratic_form c e = Inr (dot (vecmat c e) c)"
  by (simp add: quadratic_form_def shape0_def square_shape1) (simp add: square_def)

lemma calculate_S_fresh:
  "square (length c) e \<Longrightarrow> calculate_S (fresh c e) = Inr (np_sqrt (dot (vecmat c e) c))"
  by (simp add: calculate_S_def quadratic_form_square)

lemma S_fresh:
  "square (length c) e \<Longrightarrow>
     S (fresh c e) = (Inr (np_sqrt (dot (vecmat c e) c)),
                      (fresh c e)\<lparr>self_s_score := Some (np_sqrt (dot (vecmat c e) c))\<rparr>)"
  by (simp add: S_def calculate_S_fresh)

lemma get_gradient_fresh:
  assumes "square (length c) e"
  shows "get_gradient (fresh c e) =
    (let s = np_sqrt (dot (vecmat c e) c);
         g = (if s = 0 then np_zeros (length c)
              else vec_div_scalar (matvec (mat_add e (np_T e)) c) (Num 2 * s))
     in (Inr g, (fresh c e)\<lparr>self_s_score := Some s, self_gradient_s := Some g\<rparr>))"
  using assms by (simp add: get_gradient_def S_fresh Let_def)

section \<open>Arrays of real numbers\<close>

lemma sum_list_Num: "sum_list (map Num xs) = Num (sum_list xs)"
  by (induction xs) (simp_all add: zero_npfloat_def)

lemma dot_Num: "dot (map Num a) (map Num b) = Num (dot a b)"
  by (simp add: dot_def zip_map_map sum_list_Num [symmetric] comp_def case_prod_unfold)

lemma shape1_Num: "shape1 (map (map Num) e) = shape1 e"
  by (cases e) (simp_all add: shape1_def)

lemma square_Num: "square n (map (map Num) e) = square n e"
  by (auto simp: square_def)

lemma rect_Num: "rect (map (map Num) e) = rect e"
  by (simp add: rect_def list_all_length shape1_Num)

lemma np_T_Num: "square n e \<Longrightarrow> np_T (map (map Num) e) = map (map Num) (np_T e)"
  using square_shape1 [of n e] by (auto simp: np_T_def shape1_Num square_def in_set_conv_nth)

lemma matvec_Num: "matvec (map (map Num) m) (map Num v) = map Num (matvec m v)"
  by (simp add: matvec_def dot_Num)

lemma vecmat_Num: "square n e \<Longrightarrow> vecmat (map Num v) (map (map Num) e) = map Num (vecmat v e)"
  by (simp add: vecmat_def np_T_Num dot_Num)

lemma mat_add_Num:
  "mat_add (map (map Num) a) (map (map Num) b) = map (map Num) (mat_add a b)"
  by (auto simp: mat_add_def zip_map_map)

lemma vec_mul_Num: "vec_mul (map Num u) (map Num v) = map Num (map2 (*) u v)"
  by (auto simp: vec_mul_def zip_map_map)

lemma quadratic_Num:
  "square n e \<Longrightarrow> dot (vecmat (map Num c) (map (map Num) e)) (map Num c) = Num (dot (vecmat c e) c)"
  by (simp add: vecmat_Num dot_Num)

lemma gradient_numerator_Num:
  "square n e \<Longrightarrow>
     matvec (mat_add (map (map Num) e) (np_T (map (map Num) e))) (map Num c)
       = map Num (matvec (mat_add e (np_T e)) c)"
  by (simp add: np_T_Num mat_add_Num matvec_Num)

lemma dot_div_right:
  fixes u v :: "real list"
  shows "dot u (map (\<lambda>x. x / k) v) = dot u v / k"
proof (induction u arbitrary: v)
  case Nil
  then show ?case by (simp add: dot_def)
next
  case (Cons a u)
  then show ?case by (cases v) (simp_all add: dot_def add_divide_distrib)
qed

lemma quadratic_sum:
  fixes e :: "real list list"
  assumes "square n e" "length c = n"
  shows "dot (vecmat c e) c = (\<Sum>i<n. \<Sum>j<n. c ! i * e ! i ! j * c ! j)"
proof -
  have "dot (vecmat c e) c = (\<Sum>j<n. vecmat c e ! j * c ! j)"
    using assms by (simp add: dot_sum length_vecmat)
  also have "\<dots> = (\<Sum>j<n. \<Sum>i<n. c ! i * e ! i ! j * c ! j)"
    using assms by (intro sum.cong refl) (simp add: vecmat_nth_sum sum_distrib_right)
  also have "\<dots> = (\<Sum>i<n. \<Sum>j<n. c ! i * e ! i ! j * c ! j)"
    by (rule sum.swap)
  finally show ?thesis .
qed

lemma euler_sum:
  fixes e :: "real list list"
  assumes "square n e" "length c = n"
  shows "dot c (matvec (mat_add e (np_T e)) c) = 2 * dot (vecmat c e) c"
proof -
  let ?q = "\<Sum>i<n. \<Sum>j<n. c ! i * e ! i ! j * c ! j"
  have "dot c (matvec (mat_add e (np_T e)) c)
      = (\<Sum>i<n. c ! i * (\<Sum>j<n. (e ! i ! j + e ! j ! i) * c ! j))"
    using assms by (simp add: dot_sum gradient_numerator_nth length_gradient_numerator)
  also have "\<dots> = (\<Sum>i<n. \<Sum>j<n. c ! i * e ! i ! j * c ! j + c ! j * e ! j ! i * c ! i)"
    by (intro sum.cong refl) (simp add: sum_distrib_left algebra_simps)
  also have "\<dots> = ?q + (\<Sum>i<n. \<Sum>j<n. c ! j * e ! j ! i * c ! i)"
    by (simp add: sum.distrib)
  also have "(\<Sum>i<n. \<Sum>j<n. c ! j * e ! j ! i * c ! i) = ?q"
    by (rule sum.swap)
  finally show ?thesis
    using assms by (simp add: quadratic_sum)
qed

section \<open>Decomposition\<close>

text \<open>
  In the arithmetic of the model, whenever the score of an instance constructed from a
  vector and a rectangular matrix of real numbers is a positive number, the
  decomposition has \<open>n\<close> entries, entry \<open>i\<close> is \<open>C\<^sub>i\<close> times entry \<open>i\<close> of the gradient, and
  the entries sum to the score (Euler's identity for the quadratic form).  The identity
  is one of exact arithmetic: in \<open>float64\<close> the quadratic form of \<open>C = [2\<^sup>6\<^sup>0\<^sup>0]\<close> and
  \<open>E = [[1]]\<close> overflows to \<open>inf\<close>, the score is \<open>inf\<close>, the gradient \<open>2\<^sup>6\<^sup>0\<^sup>1 / inf = 0\<close> and
  the decomposition \<open>[0]\<close>, which does not sum to the score.
\<close>

lemma decomposition_exact_arithmetic:
  assumes "init (map Num c) (map (map Num) e) = Inr self" and "rect e"
    and "S self = (Inr (Num s), self')" and "0 < s"
  shows "\<exists>G D self1 self2.
           get_gradient self = (Inr G, self1)
         \<and> calculate_risk_decomposition self = (Inr D, self2)
         \<and> length D = length c
         \<and> (\<forall>i<length c. D ! i = Num (c ! i) * G ! i)
         \<and> sum_list D = Num s"
proof -
  let ?q = "dot (vecmat c e) c"
  let ?v = "matvec (mat_add e (np_T e)) c"
  let ?g = "map (\<lambda>x. x / (2 * s)) ?v"
  let ?C = "map Num c" and ?E = "map (map Num) e"
  have self: "self = fresh ?C ?E" and sqE: "square (length ?C) ?E"
    using init_fresh [OF assms(1)] assms(2) by (simp_all add: rect_Num)
  have sq: "square (length c) e"
    using sqE by (simp add: square_Num)
  have root: "np_sqrt (dot (vecmat ?C ?E) ?C) = Num s"
    using assms(3) S_fresh [OF sqE] by (simp add: self)
  then have q: "0 \<le> ?q" "sqrt ?q = s"
    by (simp_all add: quadratic_Num [OF sq] split: if_splits)
  then have qs: "?q = s * s"
    using \<open>0 < s\<close> by (metis abs_of_nonneg real_sqrt_abs2 real_sqrt_mult_self)
  have g: "get_gradient self =
      (Inr (map Num ?g), self\<lparr>self_s_score := Some (Num s), self_gradient_s := Some (map Num ?g)\<rparr>)"
    using \<open>0 < s\<close> root
    by (simp add: self get_gradient_fresh [OF sqE] Let_def zero_npfloat_def
        gradient_numerator_Num [OF sq] vec_div_scalar_def)
  have lg: "length ?g = length c"
    using length_gradient_numerator [OF sq] by simp
  have d: "calculate_risk_decomposition self =
      (Inr (vec_mul ?C (map Num ?g)),
       self\<lparr>self_s_score := Some (Num s), self_gradient_s := Some (map Num ?g)\<rparr>)"
    by (simp add: calculate_risk_decomposition_def g) (simp add: self)
  have len: "length (vec_mul ?C (map Num ?g)) = length c"
    using lg by (simp add: vec_mul_def)
  have ent: "vec_mul ?C (map Num ?g) ! i = Num (c ! i) * map Num ?g ! i" if "i < length c" for i
    using that lg by (simp add: vec_mul_def)
  have "sum_list (vec_mul ?C (map Num ?g)) = Num (dot c ?g)"
    by (simp only: vec_mul_Num sum_list_Num dot_def)
  also have "dot c ?g = 2 * ?q / (2 * s)"
    using sq by (simp add: dot_div_right euler_sum)
  also have "\<dots> = s"
    using \<open>0 < s\<close> by (simp add: qs)
  finally have "sum_list (vec_mul ?C (map Num ?g)) = Num s" .
  with g d len ent show ?thesis by blast
qed

section \<open>Gradient\<close>



section \<open>Cross-risk\<close>

lemma np_diag_nth:
  "i < length v \<Longrightarrow> j < length v \<Longrightarrow> np_diag v ! i ! j = (if i = j then v ! i else 0)"
  by (simp add: np_diag_def)

lemma square_np_diag: "square (length v) (np_diag v)"
  by (simp add: square_def np_diag_def)








lemma S_cached:
  "self_s_score self = Some v \<Longrightarrow> S self = (Inr v, self)"
  by (simp add: S_def)

lemma get_gradient_after_S:
  "get_gradient ((fresh c e)\<lparr>self_s_score := Some s\<rparr>) =
    (let g = (if s = 0 then np_zeros (length c)
              else vec_div_scalar (matvec (mat_add e (np_T e)) c) (Num 2 * s))
     in (Inr g, (fresh c e)\<lparr>self_s_score := Some s, self_gradient_s := Some g\<rparr>))"
  by (simp add: get_gradient_def S_cached Let_def)










section \<open>Normalized score\<close>

lemma sum_squares_nonneg:
  fixes c :: "real list"
  shows "0 \<le> (\<Sum>x\<leftarrow>c. x * x)"
  by (rule sum_list_nonneg) auto

lemma np_linalg_norm_Num:
  "np_linalg_norm (map Num c) = Num (sqrt (\<Sum>x\<leftarrow>c. x * x))"
proof -
  have "map (\<lambda>x. x * x) (map Num c) = map Num (map (\<lambda>x. x * x) c)"
    by simp
  then show ?thesis
    unfolding np_linalg_norm_def using sum_squares_nonneg [of c]
    by (simp only: sum_list_Num np_sqrt.simps) simp
qed

lemma sum_squares_zero_iff:
  fixes c :: "real list"
  shows "(\<Sum>x\<leftarrow>c. x * x) = 0 \<longleftrightarrow> (\<forall>x\<in>set c. x = 0)"
proof (induction c)
  case Nil
  show ?case by simp
next
  case (Cons a c)
  have "a * a + (\<Sum>x\<leftarrow>c. x * x) = 0 \<longleftrightarrow> a * a = 0 \<and> (\<Sum>x\<leftarrow>c. x * x) = 0"
    using sum_squares_nonneg [of c] by (intro add_nonneg_eq_0_iff) simp_all
  with Cons show ?case by simp
qed

lemma square_np_eye: "square k (np_eye k)"
  using square_np_diag [of "replicate k (1::real)"] by (simp add: np_eye_def)

lemma quadratic_np_eye:
  fixes c :: "real list"
  shows "dot (vecmat c (np_eye (length c))) c = (\<Sum>x\<leftarrow>c. x * x)"
proof -
  let ?n = "length c"
  have "dot (vecmat c (np_eye ?n)) c = (\<Sum>i<?n. \<Sum>j<?n. c ! i * np_eye ?n ! i ! j * c ! j)"
    by (rule quadratic_sum [OF square_np_eye refl])
  also have "\<dots> = (\<Sum>i<?n. \<Sum>j<?n. if j = i then c ! i * c ! i else 0)"
    by (intro sum.cong refl) (simp add: np_eye_def np_diag_nth)
  also have "\<dots> = (\<Sum>i<?n. c ! i * c ! i)"
    by (intro sum.cong refl) simp
  also have "\<dots> = (\<Sum>x\<leftarrow>c. x * x)"
    by (simp add: sum_list_sum_nth atLeast0LessThan)
  finally show ?thesis .
qed

text \<open>
  C5, as stated, fails at the zero vector: against the 1-by-1 identity matrix the
  normalized score of \<open>C = [0]\<close> is \<open>0\<close>, by the guard on the norm, and not \<open>1\<close>.
\<close>

theorem normalized_identity_counterexample:
  "map (map Num) (np_eye 1) = [[Num 1]]
   \<and> init [Num 0] [[Num 1]] = Inr (fresh [Num 0] [[Num 1]])
   \<and> fst (calculate_normalized_score (fresh [Num 0] [[Num 1]])) = Inr (Num 0)
   \<and> Num 0 \<noteq> Num 1"
  by (simp add: np_eye_def np_diag_def init_Inr_iff fresh_def shape0_def shape1_def
      calculate_normalized_score_def np_linalg_norm_def zero_npfloat_def Let_def)

text \<open>
  C5, amended: with the identity matrix for \<open>E\<close>, and for a vector whose sum of squares
  neither overflows nor underflows in \<open>float64\<close> nor wraps around in \<open>int64\<close>, the
  normalized score is exactly \<open>1\<close> when some entry is not zero (when the norm is not
  zero), and \<open>0\<close> when the vector is all zero.  What the source returns when the sum of
  squares leaves the range (the quotient \<open>inf / inf\<close> at \<open>C = [2\<^sup>6\<^sup>0\<^sup>0]\<close>, the guard on a norm
  that underflowed to \<open>0\<close> at \<open>C = [2\<^sup>-\<^sup>6\<^sup>0\<^sup>0]\<close>, the square root of a wrapped negative
  integer at the \<open>int64\<close> vector \<open>[3037000500]\<close>) is not part of the statement.  In range,
  \<open>S\<close> and the norm are the square root of the same sum of squares, so the quotient is
  \<open>1\<close> also after rounding.
\<close>

theorem normalized_identity:
  assumes "init (map Num c) (map (map Num) (np_eye (length c))) = Inr self"
    and "float64_squares_in_range c"
  shows "fst (calculate_normalized_score self)
           = Inr (if \<forall>x\<in>set c. x = 0 then Num 0 else Num 1)"
proof -
  let ?C = "map Num c" and ?E = "map (map Num) (np_eye (length c))"
  let ?q = "\<Sum>x\<leftarrow>c. x * x"
  have sq: "square (length c) (np_eye (length c))"
    by (rule square_np_eye)
  then have sqE: "square (length ?C) ?E"
    by (simp add: square_Num)
  have self: "self = fresh ?C ?E"
    using init_fresh(1) [OF assms(1)] sq by (simp add: rect_Num square_rect)
  have S: "S self = (Inr (Num (sqrt ?q)), self\<lparr>self_s_score := Some (Num (sqrt ?q))\<rparr>)"
    using sum_squares_nonneg [of c]
    by (simp add: self S_fresh [OF sqE] quadratic_Num [OF sq] quadratic_np_eye)
  show ?thesis
  proof (cases "\<forall>x\<in>set c. x = 0")
    case True
    then have "?q = 0" by (simp add: sum_squares_zero_iff)
    with True show ?thesis
      unfolding self
      by (simp add: calculate_normalized_score_def np_linalg_norm_Num zero_npfloat_def Let_def)
  next
    case False
    then have "?q \<noteq> 0" by (simp add: sum_squares_zero_iff)
    with False S show ?thesis
      unfolding self
      by (simp add: calculate_normalized_score_def np_linalg_norm_Num zero_npfloat_def Let_def)
  qed
qed

theorem normalized_identity_witness:
  "init (map Num [3, 4]) (map (map Num) (np_eye (length [3, 4::real])))
     = Inr (fresh [Num 3, Num 4] [[Num 1, Num 0], [Num 0, Num 1]])
   \<and> float64_squares_in_range [3, 4]
   \<and> fst (calculate_normalized_score (fresh [Num 3, Num 4] [[Num 1, Num 0], [Num 0, Num 1]]))
       = Inr (Num 1)"
proof -
  have h: "init (map Num [3, 4]) (map (map Num) (np_eye (length [3, 4::real])))
     = Inr (fresh [Num 3, Num 4] [[Num 1, Num 0], [Num 0, Num 1]])"
    by (simp add: init_Inr_iff fresh_def shape0_def shape1_def np_eye_def np_diag_def upt_rec)
  have r: "float64_squares_in_range [3, 4]"
    by (simp add: float64_squares_in_range_def)
  from normalized_identity [OF h r] h r show ?thesis by simp
qed

section \<open>Fragility and node degrees\<close>

lemma np_sum_axis1_Num: "np_sum_axis1 (map (map Num) e) = map Num (map sum_list e)"
  by (simp add: np_sum_axis1_def sum_list_Num)

lemma np_mean_replicate:
  "0 < k \<Longrightarrow> np_mean (map Num (replicate k x)) = Num x"
  by (simp add: np_mean_def sum_list_Num sum_list_replicate del: map_replicate)

text \<open>
  C6, as stated, fails on the matrix without rows, which construction accepts: it has no
  row sum, so its row sums are all equal to any \<open>d\<close>, and \<open>calculate_fragility\<close> returns
  \<open>NaN\<close>, the mean of the empty array of degrees, which is no \<open>d\<close> and in particular not
  the \<open>0\<close> of the policy.
\<close>

theorem fragility_regular_counterexample:
  "init [] [] = Inr (fresh [] [])
   \<and> calculate_node_degrees (fresh [] []) = []
   \<and> calculate_fragility (fresh [] []) = NaN
   \<and> calculate_fragility (fresh [] []) \<noteq> Num 0"
  by (simp add: init_Inr_iff fresh_def shape0_def shape1_def calculate_node_degrees_def
      calculate_fragility_def np_sum_axis1_def np_mean_def zero_npfloat_def)

text \<open>
  C6, amended: for a matrix with at least one row whose entries are integers, with the
  sums of magnitudes of each row and \<open>n * d\<^sup>2\<close> at most \<open>2\<^sup>5\<^sup>3\<close>, and whose row sums all equal
  \<open>d\<close>, \<open>calculate_fragility\<close> returns exactly \<open>d\<close>; for \<open>d = 0\<close> this is the \<open>0\<close> of the
  policy for a zero mean degree.  On such a matrix every sum, square and quotient of
  the computation is an integer that \<open>float64\<close> represents, so no operation rounds.  On
  other entries \<open>float64\<close> rounds (\<open>E = [[0.1]]\<close> gives \<open>0.10000000000000002\<close>) or
  overflows, and what is returned then is not part of the statement.
\<close>

theorem fragility_regular:
  assumes "self_E self = map (map Num) e" and "e \<noteq> []"
    and "\<forall>r\<in>set e. sum_list r = d"
    and "float64_exact_integers e d"
  shows "calculate_fragility self = Num d"
proof -
  have deg: "map sum_list e = replicate (length e) d"
    using assms(3) by (simp add: map_replicate_const [symmetric] cong: map_cong)
  have pos: "0 < length e"
    using assms(2) by simp
  have degrees: "np_sum_axis1 (self_E self) = map Num (replicate (length e) d)"
    by (simp only: assms(1) np_sum_axis1_Num deg)
  have squares: "map (\<lambda>x. x * x) (map Num (replicate (length e) d))
      = map Num (replicate (length e) (d * d))"
    by simp
  show ?thesis
    unfolding calculate_fragility_def degrees Let_def squares np_mean_replicate [OF pos]
    by (simp add: zero_npfloat_def)
qed

theorem fragility_regular_witness:
  "self_E (fresh [Num 1, Num 1] [[Num 1, Num 2], [Num 3, Num 0]]) = map (map Num) [[1, 2], [3, 0]]
   \<and> [[1, 2], [3, 0::real]] \<noteq> []
   \<and> sum_list [1, 2::real] = 3 \<and> sum_list [3, 0::real] = 3
   \<and> float64_exact_integers [[1, 2], [3, 0]] 3
   \<and> calculate_fragility (fresh [Num 1, Num 1] [[Num 1, Num 2], [Num 3, Num 0]]) = Num 3"
proof -
  have h1: "self_E (fresh [Num 1, Num 1] [[Num 1, Num 2], [Num 3, Num 0]])
      = map (map Num) [[1, 2], [3, 0]]"
    by simp
  have h2: "[[1, 2], [3, 0::real]] \<noteq> []" by simp
  have h3: "\<forall>r\<in>set [[1, 2], [3, 0::real]]. sum_list r = 3" by simp
  have h4: "float64_exact_integers [[1, 2], [3, 0]] 3"
    by (simp add: float64_exact_integers_def)
  from fragility_regular [OF h1 h2 h3 h4] h1 h2 h4 show ?thesis by simp
qed

text \<open>
  C10: two instances constructed with the same matrix and any two vectors return the
  same fragility and the same node degrees.
\<close>

theorem fragility_degrees_independent_of_C:
  assumes "init c1 e = Inr self1" and "init c2 e = Inr self2"
  shows "calculate_fragility self1 = calculate_fragility self2
       \<and> calculate_node_degrees self1 = calculate_node_degrees self2"
  using assms by (simp add: init_Inr_iff calculate_fragility_def calculate_node_degrees_def)

theorem fragility_degrees_independent_of_C_witness:
  "init [Num 1, Num 2] [[Num 1, Num 2], [Num 3, Num 1]]
     = Inr (fresh [Num 1, Num 2] [[Num 1, Num 2], [Num 3, Num 1]])
   \<and> init [Num 7, Num 0] [[Num 1, Num 2], [Num 3, Num 1]]
     = Inr (fresh [Num 7, Num 0] [[Num 1, Num 2], [Num 3, Num 1]])
   \<and> calculate_fragility (fresh [Num 1, Num 2] [[Num 1, Num 2], [Num 3, Num 1]])
     = calculate_fragility (fresh [Num 7, Num 0] [[Num 1, Num 2], [Num 3, Num 1]])
   \<and> calculate_node_degrees (fresh [Num 1, Num 2] [[Num 1, Num 2], [Num 3, Num 1]])
     = calculate_node_degrees (fresh [Num 7, Num 0] [[Num 1, Num 2], [Num 3, Num 1]])"
proof -
  have h1: "init [Num 1, Num 2] [[Num 1, Num 2], [Num 3, Num 1]]
     = Inr (fresh [Num 1, Num 2] [[Num 1, Num 2], [Num 3, Num 1]])"
    by (simp add: init_Inr_iff fresh_def shape0_def shape1_def)
  have h2: "init [Num 7, Num 0] [[Num 1, Num 2], [Num 3, Num 1]]
     = Inr (fresh [Num 7, Num 0] [[Num 1, Num 2], [Num 3, Num 1]])"
    by (simp add: init_Inr_iff fresh_def shape0_def shape1_def)
  from fragility_degrees_independent_of_C [OF h1 h2] h1 h2 show ?thesis by blast
qed

section \<open>A negative quadratic form\<close>

lemma NaN_absorbs [simp]:
  "x / NaN = NaN" "x * NaN = NaN" "x + NaN = NaN" "x - NaN = NaN"
  by (cases x; simp)+









section \<open>Centrality\<close>

lemma cross_risk_fresh_Inr:
  "square (length c) e \<Longrightarrow> \<exists>D. fst (calculate_cross_risk (fresh c e)) = Inr D"
  by (simp add: calculate_cross_risk_def S_fresh get_gradient_after_S Let_def)

lemma normalized_score_fresh_Inr:
  "square (length c) e \<Longrightarrow> \<exists>x. fst (calculate_normalized_score (fresh c e)) = Inr x"
  by (simp add: calculate_normalized_score_def S_fresh Let_def)

text \<open>
  C7: when the power iteration of \<open>networkx\<close>, called with \<open>max_iter = 1000\<close> and
  \<open>tol = 1e-6\<close>, fails to converge, \<open>calculate_centrality\<close> and \<open>calculate_criticality\<close>
  raise the convergence error and return no vector; the instance is left as it was, and
  on it the score, the gradient, the decomposition, the risk increment, the normalized
  score and the cross-risk matrix are returned without error (fragility and node
  degrees cannot fail and never call \<open>networkx\<close>).
\<close>

theorem convergence_failure_surfaced:
  assumes "init c e = Inr self" and "rect e"
    and "from_pandas_adjacency nx (self_E_df self) = Inr G"
    and "eigenvector_centrality nx G 1000 (1 / 10 ^ 6) = Inl (PowerIterationFailedConvergence k)"
  shows "calculate_centrality nx self = (Inl ConvergenceFailure, self)
       \<and> calculate_criticality nx self = (Inl ConvergenceFailure, self)
       \<and> (\<exists>s. fst (S self) = Inr s)
       \<and> (\<exists>g. fst (get_gradient self) = Inr g)
       \<and> (\<exists>d. fst (calculate_risk_decomposition self) = Inr d)
       \<and> (\<exists>i. fst (calculate_risk_increment self) = Inr i)
       \<and> (\<exists>x. fst (calculate_normalized_score self) = Inr x)
       \<and> (\<exists>D. fst (calculate_cross_risk self) = Inr D)"
proof -
  have self: "self = fresh c e" and sq: "square (length c) e"
    using init_fresh [OF assms(1,2)] by simp_all
  have cen: "calculate_centrality nx self = (Inl ConvergenceFailure, self)"
    using assms(3,4)
    by (simp add: calculate_centrality_def calculate_eigenvector_centrality_def self)
  then have cri: "calculate_criticality nx self = (Inl ConvergenceFailure, self)"
    by (simp add: calculate_criticality_def)
  have "\<exists>s. fst (S self) = Inr s"
    by (simp add: self S_fresh [OF sq])
  moreover have g: "\<exists>g. fst (get_gradient self) = Inr g"
    by (simp add: self get_gradient_fresh [OF sq] Let_def)
  moreover have "\<exists>d. fst (calculate_risk_decomposition self) = Inr d"
    by (simp add: self calculate_risk_decomposition_def get_gradient_fresh [OF sq] Let_def)
  moreover have "\<exists>i. fst (calculate_risk_increment self) = Inr i"
    using g by (simp add: calculate_risk_increment_def)
  moreover have "\<exists>x. fst (calculate_normalized_score self) = Inr x"
    unfolding self by (rule normalized_score_fresh_Inr [OF sq])
  moreover have "\<exists>D. fst (calculate_cross_risk self) = Inr D"
    unfolding self by (rule cross_risk_fresh_Inr [OF sq])
  ultimately show ?thesis
    using cen cri by blast
qed

theorem convergence_failure_surfaced_witness:
  "init [Num 1, Num 1] [[Num 0, Num 1], [Num 1, Num 0]]
     = Inr (fresh [Num 1, Num 1] [[Num 0, Num 1], [Num 1, Num 0]])
   \<and> rect [[Num 0, Num 1], [Num 1, Num 0]]
   \<and> from_pandas_adjacency
        \<lparr> from_pandas_adjacency = Inr,
          eigenvector_centrality = (\<lambda>G max_iter tol. Inl (PowerIterationFailedConvergence max_iter)) \<rparr>
        (self_E_df (fresh [Num 1, Num 1] [[Num 0, Num 1], [Num 1, Num 0]]))
       = Inr [[Num 0, Num 1], [Num 1, Num 0]]
   \<and> eigenvector_centrality
        \<lparr> from_pandas_adjacency = Inr,
          eigenvector_centrality = (\<lambda>G max_iter tol. Inl (PowerIterationFailedConvergence max_iter)) \<rparr>
        [[Num 0, Num 1], [Num 1, Num 0]] 1000 (1 / 10 ^ 6)
       = Inl (PowerIterationFailedConvergence 1000)
   \<and> calculate_centrality
        \<lparr> from_pandas_adjacency = Inr,
          eigenvector_centrality = (\<lambda>G max_iter tol. Inl (PowerIterationFailedConvergence max_iter)) \<rparr>
        (fresh [Num 1, Num 1] [[Num 0, Num 1], [Num 1, Num 0]])
       = (Inl ConvergenceFailure, fresh [Num 1, Num 1] [[Num 0, Num 1], [Num 1, Num 0]])
   \<and> (\<exists>s. fst (S (fresh [Num 1, Num 1] [[Num 0, Num 1], [Num 1, Num 0]])) = Inr s)"
proof -
  let ?self = "fresh [Num 1, Num 1] [[Num 0, Num 1], [Num 1, Num 0]]"
  let ?nx = "\<lparr> from_pandas_adjacency = Inr,
          eigenvector_centrality = (\<lambda>G max_iter tol. Inl (PowerIterationFailedConvergence max_iter)) \<rparr>
        :: (ndarray2) networkx"
  have h1: "init [Num 1, Num 1] [[Num 0, Num 1], [Num 1, Num 0]] = Inr ?self"
    by (simp add: init_Inr_iff fresh_def shape0_def shape1_def)
  have h2: "rect [[Num 0, Num 1], [Num 1, Num 0]]"
    by (simp add: rect_def shape1_def)
  have h3: "from_pandas_adjacency ?nx (self_E_df ?self) = Inr [[Num 0, Num 1], [Num 1, Num 0]]"
    by simp
  have h4: "eigenvector_centrality ?nx [[Num 0, Num 1], [Num 1, Num 0]] 1000 (1 / 10 ^ 6)
      = Inl (PowerIterationFailedConvergence 1000)"
    by simp
  from convergence_failure_surfaced [OF h1 h2 h3 h4] h1 h2 h3 h4 show ?thesis
    by blast
qed

section \<open>Caches\<close>













lemma centrality_frame:
  "self_E (snd (calculate_centrality nx self)) = self_E self"
  by (simp add: calculate_centrality_def split: option.split sum.split)



subsection \<open>What a call leaves of the instance\<close>
















subsection \<open>What a call returns does not depend on the calls before it\<close>























end
